theory Spec2Isabelle
  imports Complex_Main "HOL-Library.Multiset" "HOL-Library.AList"
begin

unbundle bit_operations_syntax

section \<open>Python values shared by all components\<close>

text \<open>
  Every \<^verbatim>\<open>raise\<close> of \<^verbatim>\<open>NetUtils.py\<close>, and every exception the Python runtime raises
  on a line of it (a missing dictionary key, an unhashable key, a constructor call with a
  required argument missing, \<^verbatim>\<open>int()\<close> of a string that is no numeral), is a value of
  this type. A function that can raise returns \<open>error + 'a\<close>, \<open>Inl\<close> the exception.
\<close>

datatype error =
    ValueError string
  | KeyError
  | TypeError_unhashable
  | TypeError_missing string "string list"
  | TypeError_int
  | AttributeError
  | Exception string

text \<open>
  A Python \<^verbatim>\<open>dict\<close> is an association list in insertion order whose keys are
  pairwise different; \<open>map_of\<close> is the lookup.
\<close>

definition is_dict :: "('k \<times> 'v) list \<Rightarrow> bool" where
  "is_dict al = distinct (map fst al)"

definition keys :: "('k \<times> 'v) list \<Rightarrow> 'k list" where
  "keys al = map fst al"

definition getitem :: "('k \<times> 'v) list \<Rightarrow> 'k \<Rightarrow> error + 'v" where
  "getitem al k = (case map_of al k of None \<Rightarrow> Inl KeyError | Some v \<Rightarrow> Inr v)"

definition get_default :: "('k \<times> 'v) list \<Rightarrow> 'k \<Rightarrow> 'v \<Rightarrow> 'v" where
  "get_default al k d = (case map_of al k of None \<Rightarrow> d | Some v \<Rightarrow> v)"

section \<open>Location Store\<close>

text \<open>
  \<^verbatim>\<open>_LocationStore\<close> is a \<^verbatim>\<open>dict\<close> from the finding player to a \<^verbatim>\<open>dict\<close> from location
  id to the tuple (item id, receiving player, item flags).
\<close>

type_synonym location_data = "(int \<times> (int \<times> int \<times> int)) list"
type_synonym location_store = "(int \<times> location_data) list"

text \<open>
  The externally owned check-state \<^verbatim>\<open>state[team, slot]\<close>: a dictionary from
  (team, slot) to the set of checked location ids; a missing key raises \<^verbatim>\<open>KeyError\<close>.
\<close>

type_synonym check_state = "(int \<times> int) \<rightharpoonup> int set"

definition state_getitem :: "check_state \<Rightarrow> int \<times> int \<Rightarrow> error + int set" where
  "state_getitem st k = (case st k of None \<Rightarrow> Inl KeyError | Some s \<Rightarrow> Inr s)"

text \<open>
  \<^verbatim>\<open>_LocationStore.__init__\<close>: the three checks in the order of the source.
  \<^verbatim>\<open>len(self)\<close> is the number of keys, \<^verbatim>\<open>max(self)\<close> the largest key.
\<close>

definition LocationStore_init :: "location_store \<Rightarrow> error + location_store" where
  "LocationStore_init vals =
     (if vals = [] then Inl (ValueError ''Rejecting game with 0 players'')
      else if int (length vals) \<noteq> Max (set (keys vals))
        then Inl (ValueError ''Player IDs not continuous'')
      else if length (get_default vals 0 []) \<noteq> 0
        then Inl (ValueError ''Invalid player id 0 for location'')
      else Inr vals)"

text \<open>
  The constructor's contract in the words of the specification: the player ids are exactly
  \<open>1..N\<close> for some \<open>N \<ge> 1\<close>, and player 0 owns no location.
\<close>

definition spec_player_ids_1_to_N :: "location_store \<Rightarrow> bool" where
  "spec_player_ids_1_to_N vals = (\<exists>N. 1 \<le> N \<and> set (keys vals) = {1..N})"

definition spec_no_location_of_player_0 :: "location_store \<Rightarrow> bool" where
  "spec_no_location_of_player_0 vals = (get_default vals 0 [] = [])"

text \<open>\<^verbatim>\<open>get_checked\<close>, \<^verbatim>\<open>get_missing\<close> and \<^verbatim>\<open>get_remaining\<close>.\<close>

definition get_checked :: "location_store \<Rightarrow> check_state \<Rightarrow> int \<Rightarrow> int \<Rightarrow> error + int list" where
  "get_checked store st team slot =
     (case state_getitem st (team, slot) of
        Inl e \<Rightarrow> Inl e
      | Inr checked \<Rightarrow>
          if checked = {} then Inr []
          else (case getitem store slot of
                  Inl e \<Rightarrow> Inl e
                | Inr locs \<Rightarrow> Inr [location_id \<leftarrow> keys locs. location_id \<in> checked]))"

definition get_missing :: "location_store \<Rightarrow> check_state \<Rightarrow> int \<Rightarrow> int \<Rightarrow> error + int list" where
  "get_missing store st team slot =
     (case state_getitem st (team, slot) of
        Inl e \<Rightarrow> Inl e
      | Inr checked \<Rightarrow>
          if checked = {} then
            (case getitem store slot of Inl e \<Rightarrow> Inl e | Inr locs \<Rightarrow> Inr (keys locs))
          else (case getitem store slot of
                  Inl e \<Rightarrow> Inl e
                | Inr locs \<Rightarrow> Inr [location_id \<leftarrow> keys locs. location_id \<notin> checked]))"

text \<open>
  \<^verbatim>\<open>player_locations[location_id][0]\<close> with \<^verbatim>\<open>location_id\<close> drawn from the keys of
  \<^verbatim>\<open>player_locations\<close> is the first component of that entry, so the comprehension runs over
  the entries. \<^verbatim>\<open>sorted\<close> on integers is \<open>sort\<close>.
\<close>

definition get_remaining :: "location_store \<Rightarrow> check_state \<Rightarrow> int \<Rightarrow> int \<Rightarrow> error + int list" where
  "get_remaining store st team slot =
     (case state_getitem st (team, slot) of
        Inl e \<Rightarrow> Inl e
      | Inr checked \<Rightarrow>
          (case getitem store slot of
             Inl e \<Rightarrow> Inl e
           | Inr player_locations \<Rightarrow>
               Inr (sort (map (\<lambda>entry. fst (snd entry))
                            [entry \<leftarrow> player_locations. fst entry \<notin> checked]))))"

section \<open>Message parts\<close>

text \<open>
  \<^verbatim>\<open>JSONMessagePart\<close> is a \<^verbatim>\<open>TypedDict\<close> with \<^verbatim>\<open>total=False\<close>: each of the keys
  \<^verbatim>\<open>text\<close>, \<^verbatim>\<open>type\<close>, \<^verbatim>\<open>color\<close>, \<^verbatim>\<open>player\<close>, \<^verbatim>\<open>flags\<close> is present or absent.
\<close>

record JSONMessagePart =
  p_text :: "string option"
  p_type :: "string option"
  p_color :: "string option"
  p_player :: "int option"
  p_flags :: "int option"

definition empty_part :: JSONMessagePart where
  "empty_part = \<lparr>p_text = None, p_type = None, p_color = None, p_player = None, p_flags = None\<rparr>"

text \<open>\<^verbatim>\<open>str\<close> of an integer: the decimal numeral, with a minus sign below zero.\<close>

definition digit_char :: "nat \<Rightarrow> char" where
  "digit_char d = char_of (of_char CHR ''0'' + d)"

fun str_nat :: "nat \<Rightarrow> string" where
  "str_nat n = (if n < 10 then [digit_char n] else str_nat (n div 10) @ [digit_char (n mod 10)])"

definition str_int :: "int \<Rightarrow> string" where
  "str_int i = (if i < 0 then CHR ''-'' # str_nat (nat (- i)) else str_nat (nat i))"

text \<open>
  \<^verbatim>\<open>add_json_text(parts, text, **kwargs)\<close> appends \<^verbatim>\<open>{"text": str(text), **kwargs}\<close>. The
  keyword arguments are the function that writes them into the part; the callers in
  \<^verbatim>\<open>NetUtils.py\<close> pass a string or an integer as \<^verbatim>\<open>text\<close>, and the model applies
  \<open>str_int\<close> at the call when it is an integer.
\<close>

definition add_json_text ::
  "JSONMessagePart list \<Rightarrow> string \<Rightarrow> (JSONMessagePart \<Rightarrow> JSONMessagePart) \<Rightarrow> JSONMessagePart list" where
  "add_json_text parts text kwargs = parts @ [kwargs (empty_part\<lparr>p_text := Some text\<rparr>)]"

definition add_json_item ::
  "JSONMessagePart list \<Rightarrow> int \<Rightarrow> int \<Rightarrow> int \<Rightarrow> JSONMessagePart list" where
  "add_json_item parts item_id player item_flags =
     parts @ [empty_part\<lparr>p_text := Some (str_int item_id), p_player := Some player,
                          p_flags := Some item_flags, p_type := Some ''item_id''\<rparr>]"

definition add_json_location :: "JSONMessagePart list \<Rightarrow> int \<Rightarrow> int \<Rightarrow> JSONMessagePart list" where
  "add_json_location parts location_id player =
     parts @ [empty_part\<lparr>p_text := Some (str_int location_id), p_player := Some player,
                          p_type := Some ''location_id''\<rparr>]"

section \<open>Hint\<close>

text \<open>
  \<^verbatim>\<open>Hint\<close> is a \<^verbatim>\<open>NamedTuple\<close> of seven fields. It overrides \<^verbatim>\<open>__hash__\<close> and nothing
  else: \<^verbatim>\<open>__eq__\<close> is the one of \<^verbatim>\<open>tuple\<close>, which compares all seven fields in order.
  The built-in \<^verbatim>\<open>hash\<close> of a tuple is a parameter of the model.
\<close>

datatype Hint = Hint int int int int bool string int

fun Hint_hash :: "(int \<times> int \<times> int \<times> int \<times> string \<Rightarrow> int) \<Rightarrow> Hint \<Rightarrow> int" where
  "Hint_hash hash (Hint receiving_player finding_player location item found entrance item_flags) =
     hash (receiving_player, finding_player, location, item, entrance)"

fun Hint_eq :: "Hint \<Rightarrow> Hint \<Rightarrow> bool" where
  "Hint_eq (Hint receiving_player finding_player location item found entrance item_flags)
           (Hint receiving_player' finding_player' location' item' found' entrance' item_flags') =
     ((receiving_player, finding_player, location, item, found, entrance, item_flags)
        = (receiving_player', finding_player', location', item', found', entrance', item_flags'))"

text \<open>The five fields the specification names as the identity of a hint.\<close>

fun spec_identity :: "Hint \<Rightarrow> int \<times> int \<times> int \<times> int \<times> string" where
  "spec_identity (Hint receiving_player finding_player location item found entrance item_flags) =
     (receiving_player, finding_player, location, item, entrance)"

fun Hint_found :: "Hint \<Rightarrow> bool" where
  "Hint_found (Hint receiving_player finding_player location item found entrance item_flags) = found"

fun Hint_item_flags :: "Hint \<Rightarrow> int" where
  "Hint_item_flags (Hint receiving_player finding_player location item found entrance item_flags) =
     item_flags"

text \<open>\<^verbatim>\<open>Hint.re_check\<close>: the check-state is \<^verbatim>\<open>ctx.location_checks\<close>.\<close>

fun Hint_re_check :: "check_state \<Rightarrow> int \<Rightarrow> Hint \<Rightarrow> error + Hint" where
  "Hint_re_check location_checks team
       (Hint receiving_player finding_player location item found entrance item_flags) =
     (if found then Inr (Hint receiving_player finding_player location item found entrance item_flags)
      else (case state_getitem location_checks (team, finding_player) of
              Inl e \<Rightarrow> Inl e
            | Inr checked \<Rightarrow>
                if location \<in> checked
                then Inr (Hint receiving_player finding_player location item True entrance item_flags)
                else Inr (Hint receiving_player finding_player location item found entrance item_flags)))"

section \<open>Hint release state machine\<close>

text \<open>
  The two hint payloads are frozen dataclasses, compared field by field; \<^verbatim>\<open>type(self)\<close> is
  the class of the payload. The second component of a \<^verbatim>\<open>per_location_data\<close> tuple is any
  object, the type parameter \<open>'d\<close>. The dictionary \<^verbatim>\<open>per_location_data\<close> is an association
  list, so two payloads that list the same entries in a different order are two keys here;
  no theorem below depends on it.
\<close>

datatype hint_class = TextHint_class | LocationSetHint_class

datatype 'd triggered_hint =
    TextHint int string
  | LocationSetHint int string string int "(int \<times> (int \<times> 'd)) list"

fun type_of :: "'d triggered_hint \<Rightarrow> hint_class" where
  "type_of (TextHint player text) = TextHint_class"
| "type_of (LocationSetHint player label set_kind total_value per_location_data) =
     LocationSetHint_class"

fun get_recipients :: "'d triggered_hint \<Rightarrow> int list" where
  "get_recipients (TextHint player text) = [player]"
| "get_recipients (LocationSetHint player label set_kind total_value per_location_data) = [player]"

datatype trigger = FreeTrigger | LocationTrigger int int

datatype 'd triggerable_hint = TriggerableHint "'d triggered_hint" trigger

datatype release_state = unreleased | stale | fresh | broadcasted

text \<open>
  The record \<^verbatim>\<open>{"release_state": ..., "release_data": ...}\<close> that \<^verbatim>\<open>init_team_data\<close>
  creates; \<^verbatim>\<open>release_data\<close> is \<^verbatim>\<open>None\<close> until the first \<^verbatim>\<open>re_check\<close>.
\<close>

record 'd hint_data =
  release_state :: release_state
  release_data :: "'d triggered_hint option"

type_synonym 'd team_dict = "(hint_class \<times> ('d triggered_hint \<times> 'd hint_data) list) list"

text \<open>
  The part of \<^verbatim>\<open>ctx\<close> the state machine reads and writes:
  \<^verbatim>\<open>ctx.triggerable_hints\<close>; \<^verbatim>\<open>ctx.triggerable_hint_state["team_data"]\<close>, absent until
  the first \<^verbatim>\<open>setdefault\<close>; the list \<^verbatim>\<open>ctx.triggerable_hint_state["indexes"][FreeTrigger]\<close>,
  empty when absent; \<^verbatim>\<open>ctx.location_checks\<close>; and the calls made so far of the two
  callbacks \<^verbatim>\<open>ctx.on_changed_triggerable_hints(team, player, hint_type)\<close> and
  \<^verbatim>\<open>ctx.notify_triggered_hints(team, messages)\<close>, oldest first.
\<close>

record 'd ctx =
  triggerable_hints :: "'d triggerable_hint list"
  team_data :: "(int \<times> 'd team_dict) list option"
  free_index :: "'d triggerable_hint list"
  location_checks :: check_state
  on_changed_calls :: "(int \<times> int \<times> hint_class) list"
  notify_calls :: "(int \<times> (int \<times> JSONMessagePart list) list) list"

text \<open>\<^verbatim>\<open>get_team_data\<close>: four subscriptions, each a \<^verbatim>\<open>KeyError\<close> when the key is missing.\<close>

definition get_team_data :: "'d ctx \<Rightarrow> int \<Rightarrow> 'd triggered_hint \<Rightarrow> error + 'd hint_data" where
  "get_team_data ctx team self =
     (case team_data ctx of
        None \<Rightarrow> Inl KeyError
      | Some all_team_data \<Rightarrow>
          (case map_of all_team_data team of
             None \<Rightarrow> Inl KeyError
           | Some for_team \<Rightarrow>
               (case map_of for_team (type_of self) of
                  None \<Rightarrow> Inl KeyError
                | Some for_type \<Rightarrow>
                    (case map_of for_type self of
                       None \<Rightarrow> Inl KeyError
                     | Some hint_data \<Rightarrow> Inr hint_data))))"

text \<open>
  An assignment to a key of the dictionary \<^verbatim>\<open>get_team_data\<close> returned changes that
  dictionary in place: the entry of \<^verbatim>\<open>self\<close> under its class under the team.
\<close>

definition modify_team_data ::
  "'d ctx \<Rightarrow> int \<Rightarrow> 'd triggered_hint \<Rightarrow> ('d hint_data \<Rightarrow> 'd hint_data) \<Rightarrow> 'd ctx" where
  "modify_team_data ctx team self f =
     ctx\<lparr>team_data :=
           map_option
             (AList.map_entry team (AList.map_entry (type_of self) (AList.map_entry self f)))
             (team_data ctx)\<rparr>"

text \<open>
  \<^verbatim>\<open>get_release_data\<close>: a text hint returns itself. A location-set hint evaluates
  \<^verbatim>\<open>ctx.location_checks[team, self.player]\<close> in the condition of the comprehension, once per
  entry, so the subscription is not evaluated when \<^verbatim>\<open>per_location_data\<close> is empty.
\<close>

fun get_release_data :: "check_state \<Rightarrow> int \<Rightarrow> 'd triggered_hint \<Rightarrow> error + 'd triggered_hint" where
  "get_release_data checks team (TextHint player text) = Inr (TextHint player text)"
| "get_release_data checks team
       (LocationSetHint player label set_kind total_value per_location_data) =
     (if per_location_data = [] then Inr (LocationSetHint player label set_kind total_value [])
      else (case state_getitem checks (team, player) of
              Inl e \<Rightarrow> Inl e
            | Inr checked \<Rightarrow>
                Inr (LocationSetHint player label set_kind total_value
                       [entry \<leftarrow> per_location_data. fst entry \<in> checked])))"

text \<open>\<^verbatim>\<open>TriggeredHint.release\<close>, \<^verbatim>\<open>mark_stale\<close> and \<^verbatim>\<open>is_released\<close>.\<close>

definition hint_release :: "'d ctx \<Rightarrow> int \<Rightarrow> 'd triggered_hint \<Rightarrow> error + ('d ctx \<times> bool)" where
  "hint_release ctx team self =
     (case get_team_data ctx team self of
        Inl e \<Rightarrow> Inl e
      | Inr hint_data \<Rightarrow>
          if release_state hint_data = unreleased
          then Inr (modify_team_data ctx team self (\<lambda>d. d\<lparr>release_state := stale\<rparr>), True)
          else Inr (ctx, False))"

definition mark_stale :: "'d ctx \<Rightarrow> int \<Rightarrow> 'd triggered_hint \<Rightarrow> error + 'd ctx" where
  "mark_stale ctx team self =
     (case get_team_data ctx team self of
        Inl e \<Rightarrow> Inl e
      | Inr hint_data \<Rightarrow>
          if release_state hint_data \<noteq> unreleased
          then Inr (modify_team_data ctx team self (\<lambda>d. d\<lparr>release_state := stale\<rparr>))
          else Inr ctx)"

definition is_released :: "'d ctx \<Rightarrow> int \<Rightarrow> 'd triggered_hint \<Rightarrow> error + bool" where
  "is_released ctx team self =
     (case get_team_data ctx team self of
        Inl e \<Rightarrow> Inl e
      | Inr hint_data \<Rightarrow> Inr (release_state hint_data \<noteq> unreleased))"

text \<open>
  \<^verbatim>\<open>TriggeredHint.re_check\<close> returns \<^verbatim>\<open>hint_data["release_data"]\<close>, which is \<^verbatim>\<open>None\<close>
  or a payload.
\<close>

definition re_check ::
  "'d ctx \<Rightarrow> int \<Rightarrow> 'd triggered_hint \<Rightarrow> error + ('d ctx \<times> 'd triggered_hint option)" where
  "re_check ctx team self =
     (case get_team_data ctx team self of
        Inl e \<Rightarrow> Inl e
      | Inr hint_data \<Rightarrow>
          if release_state hint_data = unreleased
          then Inl (Exception ''Called re_check on unreleased hint'')
          else if release_state hint_data = stale
          then (case get_release_data (location_checks ctx) team self of
                  Inl e \<Rightarrow> Inl e
                | Inr data \<Rightarrow>
                    Inr (modify_team_data ctx team self
                           (\<lambda>d. d\<lparr>release_data := Some data, release_state := fresh\<rparr>),
                         Some data))
          else Inr (ctx, release_data hint_data))"

definition check_and_set_broadcasted ::
  "'d ctx \<Rightarrow> int \<Rightarrow> 'd triggered_hint \<Rightarrow> error + ('d ctx \<times> bool)" where
  "check_and_set_broadcasted ctx team self =
     (case get_team_data ctx team self of
        Inl e \<Rightarrow> Inl e
      | Inr hint_data \<Rightarrow>
          (case (if release_state hint_data = stale
                 then map_sum id fst (re_check ctx team self)
                 else Inr ctx) of
             Inl e \<Rightarrow> Inl e
           | Inr ctx1 \<Rightarrow>
               (case get_team_data ctx1 team self of
                  Inl e \<Rightarrow> Inl e
                | Inr hint_data1 \<Rightarrow>
                    if release_state hint_data1 = fresh
                    then Inr (modify_team_data ctx1 team self
                                (\<lambda>d. d\<lparr>release_state := broadcasted\<rparr>), True)
                    else Inr (ctx1, False))))"

text \<open>
  \<^verbatim>\<open>init_team_data\<close>: two \<^verbatim>\<open>setdefault\<close> calls under
  \<^verbatim>\<open>ctx.triggerable_hint_state["team_data"][team]\<close>, then both keys of the record are
  written, whether the record was new or not.
\<close>

definition init_team_data :: "'d ctx \<Rightarrow> int \<Rightarrow> 'd triggered_hint \<Rightarrow> error + 'd ctx" where
  "init_team_data ctx team self =
     (case team_data ctx of
        None \<Rightarrow> Inl KeyError
      | Some all_team_data \<Rightarrow>
          (case map_of all_team_data team of
             None \<Rightarrow> Inl KeyError
           | Some for_team \<Rightarrow>
               let hint_data = \<lparr>release_state = unreleased, release_data = None\<rparr>
               in Inr (ctx\<lparr>team_data :=
                         Some (AList.map_entry team
                                 (AList.map_default (type_of self) [(self, hint_data)]
                                    (AList.update self hint_data))
                                 all_team_data)\<rparr>)))"

fun init_each :: "'d ctx \<Rightarrow> int \<Rightarrow> 'd triggerable_hint list \<Rightarrow> error + 'd ctx" where
  "init_each ctx team [] = Inr ctx"
| "init_each ctx team (TriggerableHint hint trigger # rest) =
     (case init_team_data ctx team hint of
        Inl e \<Rightarrow> Inl e
      | Inr ctx1 \<Rightarrow> init_each ctx1 team rest)"

text \<open>
  \<^verbatim>\<open>as_message_parts\<close>. Called on the \<^verbatim>\<open>None\<close> that \<^verbatim>\<open>re_check\<close> can return, the
  attribute lookup raises \<^verbatim>\<open>AttributeError\<close>.
\<close>

fun as_message_parts :: "'d triggered_hint \<Rightarrow> error + JSONMessagePart list" where
  "as_message_parts (TextHint player text) = Inr (add_json_text [] text id)"
| "as_message_parts (LocationSetHint player label set_kind total_value per_location_data) =
     (if set_kind = ''region_items'' \<or> set_kind = ''region_hints'' then
        let found_points = sum_list (map (\<lambda>location_data. fst location_data)
                                       (map snd per_location_data));
            parts = add_json_text [] label id;
            parts = add_json_text parts '' has '' id;
            parts = add_json_text parts (str_int total_value) id;
            parts = add_json_text parts '' points of '' id;
            parts = add_json_text parts
                      (if set_kind = ''region_items'' then ''items, '' else ''hints, '') id;
            parts = add_json_text parts (str_int found_points) id;
            parts = add_json_text parts '' found.'' id
        in Inr parts
      else Inl (Exception ''Unknown LocationSetHint set_kind''))"

definition as_message_parts_of :: "'d triggered_hint option \<Rightarrow> error + JSONMessagePart list" where
  "as_message_parts_of data =
     (case data of None \<Rightarrow> Inl AttributeError | Some h \<Rightarrow> as_message_parts h)"

text \<open>
  \<^verbatim>\<open>TriggerableHint.release\<close>: a hint that \<^verbatim>\<open>TriggeredHint.release\<close> has just released is
  announced through \<^verbatim>\<open>ctx.notify_triggered_hints\<close> when its trigger is a
  \<^verbatim>\<open>LocationTrigger\<close>; \<^verbatim>\<open>messages\<close> is a dictionary from player to message parts.
\<close>

fun triggerable_release :: "'d ctx \<Rightarrow> int \<Rightarrow> 'd triggerable_hint \<Rightarrow> error + 'd ctx" where
  "triggerable_release ctx team (TriggerableHint hint trigger) =
     (case hint_release ctx team hint of
        Inl e \<Rightarrow> Inl e
      | Inr (ctx1, released) \<Rightarrow>
          if \<not> released then Inr ctx1
          else (case trigger of
                  FreeTrigger \<Rightarrow> Inr ctx1
                | LocationTrigger finding_player location \<Rightarrow>
                    let recipients = get_recipients hint in
                    (case re_check ctx1 team hint of
                       Inl e \<Rightarrow> Inl e
                     | Inr (ctx2, data) \<Rightarrow>
                         (case as_message_parts_of data of
                            Inl e \<Rightarrow> Inl e
                          | Inr hint_parts \<Rightarrow>
                              let parts =
                                    (if finding_player \<in> set recipients \<and> length recipients = 1
                                     then add_json_text [] ''Found own hint: '' id
                                     else if length recipients = 1
                                     then add_json_text
                                            (add_json_text
                                               (add_json_text [] ''Found hint for '' id)
                                               (str_int (recipients ! 0))
                                               (\<lambda>p. p\<lparr>p_type := Some ''player_id''\<rparr>))
                                            '': '' id
                                     else add_json_text [] ''Found hint for multiple players: '' id);
                                  messages = [(finding_player, parts @ hint_parts)];
                                  messages =
                                    fold (\<lambda>recipient messages.
                                            if recipient \<noteq> finding_player
                                            then AList.update recipient
                                                   (add_json_text
                                                      (add_json_text [] (str_int finding_player)
                                                         (\<lambda>p. p\<lparr>p_type := Some ''player_id''\<rparr>))
                                                      '' found your hint: '' id
                                                    @ hint_parts)
                                                   messages
                                            else messages)
                                         recipients messages
                              in Inr (ctx2\<lparr>notify_calls :=
                                              notify_calls ctx2 @ [(team, messages)]\<rparr>)))))"

text \<open>\<^verbatim>\<open>FreeTrigger.release_all\<close>.\<close>

fun release_each :: "'d ctx \<Rightarrow> int \<Rightarrow> 'd triggerable_hint list \<Rightarrow> error + 'd ctx" where
  "release_each ctx team [] = Inr ctx"
| "release_each ctx team (triggerable_hint # rest) =
     (case triggerable_release ctx team triggerable_hint of
        Inl e \<Rightarrow> Inl e
      | Inr ctx1 \<Rightarrow> release_each ctx1 team rest)"

definition release_all :: "'d ctx \<Rightarrow> int \<Rightarrow> error + 'd ctx" where
  "release_all ctx team = release_each ctx team (free_index ctx)"

text \<open>
  The two loops of \<^verbatim>\<open>broadcast_updates\<close>. The first runs over the classes of the team's
  dictionary and the payloads under each; the loop body changes records, never keys, so the
  payloads visited are the keys at the start. \<^verbatim>\<open>needed_updates\<close> is a set: a list without
  repetition, an element added when it is not yet there. Python fixes no order in which the
  second loop visits the set; the model visits it in the order of insertion.
\<close>

definition set_add :: "'a \<Rightarrow> 'a list \<Rightarrow> 'a list" where
  "set_add x xs = (if x \<in> set xs then xs else xs @ [x])"

fun scan_hints ::
  "'d ctx \<Rightarrow> int \<Rightarrow> hint_class \<Rightarrow> 'd triggered_hint list \<Rightarrow> (int \<times> hint_class) list
     \<Rightarrow> error + ('d ctx \<times> (int \<times> hint_class) list)" where
  "scan_hints ctx team hint_type [] needed_updates = Inr (ctx, needed_updates)"
| "scan_hints ctx team hint_type (triggered_hint # rest) needed_updates =
     (case check_and_set_broadcasted ctx team triggered_hint of
        Inl e \<Rightarrow> Inl e
      | Inr (ctx1, now_broadcasted) \<Rightarrow>
          scan_hints ctx1 team hint_type rest
            (if now_broadcasted
             then fold (\<lambda>player. set_add (player, hint_type))
                    (get_recipients triggered_hint) needed_updates
             else needed_updates))"

fun scan_types ::
  "'d ctx \<Rightarrow> int \<Rightarrow> 'd team_dict \<Rightarrow> (int \<times> hint_class) list
     \<Rightarrow> error + ('d ctx \<times> (int \<times> hint_class) list)" where
  "scan_types ctx team [] needed_updates = Inr (ctx, needed_updates)"
| "scan_types ctx team ((hint_type, data_for_type) # rest) needed_updates =
     (case scan_hints ctx team hint_type (keys data_for_type) needed_updates of
        Inl e \<Rightarrow> Inl e
      | Inr (ctx1, needed_updates1) \<Rightarrow> scan_types ctx1 team rest needed_updates1)"

definition broadcast_pass :: "'d ctx \<Rightarrow> int \<Rightarrow> error + 'd ctx" where
  "broadcast_pass ctx team =
     (case team_data ctx of
        None \<Rightarrow> Inl KeyError
      | Some all_team_data \<Rightarrow>
          (case map_of all_team_data team of
             None \<Rightarrow> Inl KeyError
           | Some for_team \<Rightarrow>
               (case scan_types ctx team for_team [] of
                  Inl e \<Rightarrow> Inl e
                | Inr (ctx1, needed_updates) \<Rightarrow>
                    Inr (ctx1\<lparr>on_changed_calls :=
                                on_changed_calls ctx1
                                  @ map (\<lambda>(player, hint_type). (team, player, hint_type))
                                      needed_updates\<rparr>))))"

text \<open>
  \<^verbatim>\<open>ensure_team_init\<close> and \<^verbatim>\<open>broadcast_updates\<close> call each other. The call of
  \<^verbatim>\<open>broadcast_updates\<close> at the end of \<^verbatim>\<open>ensure_team_init\<close> starts with a call of
  \<^verbatim>\<open>ensure_team_init\<close> that finds \<^verbatim>\<open>ctx.triggerable_hints\<close> non-empty and the team
  present, and returns at once; what remains of that call is the two loops,
  \<open>broadcast_pass\<close>.
\<close>

definition ensure_team_init :: "'d ctx \<Rightarrow> int \<Rightarrow> error + 'd ctx" where
  "ensure_team_init ctx team =
     (if triggerable_hints ctx = [] then Inr ctx
      else
        let all_team_data = (case team_data ctx of None \<Rightarrow> [] | Some a \<Rightarrow> a) in
        if team \<in> set (keys all_team_data) then Inr (ctx\<lparr>team_data := Some all_team_data\<rparr>)
        else
          (case init_each (ctx\<lparr>team_data := Some (AList.update team [] all_team_data)\<rparr>) team
                  (triggerable_hints ctx) of
             Inl e \<Rightarrow> Inl e
           | Inr ctx1 \<Rightarrow>
               (case release_all ctx1 team of
                  Inl e \<Rightarrow> Inl e
                | Inr ctx2 \<Rightarrow> broadcast_pass ctx2 team)))"

definition broadcast_updates :: "'d ctx \<Rightarrow> int \<Rightarrow> error + 'd ctx" where
  "broadcast_updates ctx team =
     (case ensure_team_init ctx team of
        Inl e \<Rightarrow> Inl e
      | Inr ctx1 \<Rightarrow> broadcast_pass ctx1 team)"

text \<open>
  Notions the theorems about the state machine are stated with. \<open>state_of\<close> reads the
  release state of a payload for a team, \<open>None\<close> when there is no record. A payload has
  newly transitioned to \<open>broadcasted\<close> between two contexts when it is \<open>broadcasted\<close> in
  the second and was not in the first. A team's dictionary is well formed when it is what
  \<^verbatim>\<open>init_team_data\<close> builds: dictionaries at both levels, every payload filed under its
  own class.
\<close>

definition state_of :: "'d ctx \<Rightarrow> int \<Rightarrow> 'd triggered_hint \<Rightarrow> release_state option" where
  "state_of ctx team h =
     (case get_team_data ctx team h of Inl e \<Rightarrow> None | Inr d \<Rightarrow> Some (release_state d))"

definition newly_broadcasted :: "'d ctx \<Rightarrow> 'd ctx \<Rightarrow> int \<Rightarrow> 'd triggered_hint \<Rightarrow> bool" where
  "newly_broadcasted ctx ctx' team h =
     (state_of ctx team h \<noteq> Some broadcasted \<and> state_of ctx' team h = Some broadcasted)"

definition well_formed_team :: "'d team_dict \<Rightarrow> bool" where
  "well_formed_team for_team =
     (is_dict for_team \<and>
      list_all (\<lambda>(hint_type, for_type).
                  is_dict for_type \<and> list_all (\<lambda>h. type_of h = hint_type) (keys for_type))
        for_team)"

text \<open>
  \<open>hints_of\<close> collects the payloads filed in a team's dictionary, and a payload is due
  when its state is \<open>stale\<close> or \<open>fresh\<close>. \<open>passed ctx team H ctx'\<close> says that \<open>ctx'\<close> is
  \<open>ctx\<close> after the payloads of \<open>H\<close> that were due have become \<open>broadcasted\<close>, every
  other state, the check-state and the recorded callback calls being as before.
\<close>

definition hints_of :: "'d team_dict \<Rightarrow> 'd triggered_hint set" where
  "hints_of tds = (\<Union>(hint_type, for_type) \<in> set tds. set (keys for_type))"

definition due :: "'d ctx \<Rightarrow> int \<Rightarrow> 'd triggered_hint \<Rightarrow> bool" where
  "due ctx team h = (state_of ctx team h = Some stale \<or> state_of ctx team h = Some fresh)"

definition passed :: "'d ctx \<Rightarrow> int \<Rightarrow> 'd triggered_hint set \<Rightarrow> 'd ctx \<Rightarrow> bool" where
  "passed ctx team H ctx' =
     ((\<forall>h. state_of ctx' team h =
            (if h \<in> H \<and> (state_of ctx team h = Some stale \<or> state_of ctx team h = Some fresh)
             then Some broadcasted else state_of ctx team h))
      \<and> location_checks ctx' = location_checks ctx
      \<and> on_changed_calls ctx' = on_changed_calls ctx)"

text \<open>
  A context used to instantiate the theorems: team 0 with three text hints (one
  \<open>stale\<close>, one \<open>fresh\<close>, both for player 1, and one \<open>unreleased\<close> for player 2) and a
  \<open>stale\<close> location-set hint for player 1, who has checked location 10.
\<close>

definition example_ctx :: "int ctx" where
  "example_ctx =
     \<lparr>triggerable_hints =
        [TriggerableHint (TextHint 1 ''a'') FreeTrigger,
         TriggerableHint (TextHint 1 ''b'') FreeTrigger,
         TriggerableHint (TextHint 2 ''c'') (LocationTrigger 2 30),
         TriggerableHint (LocationSetHint 1 ''Cave'' ''region_items'' 8 [(10, (5, 0)), (20, (3, 0))])
           FreeTrigger],
      team_data = Some
        [(0, [(TextHint_class,
                [(TextHint 1 ''a'', \<lparr>release_state = stale, release_data = None\<rparr>),
                 (TextHint 1 ''b'', \<lparr>release_state = fresh, release_data = Some (TextHint 1 ''b'')\<rparr>),
                 (TextHint 2 ''c'', \<lparr>release_state = unreleased, release_data = None\<rparr>)]),
              (LocationSetHint_class,
                [(LocationSetHint 1 ''Cave'' ''region_items'' 8 [(10, (5, 0)), (20, (3, 0))],
                  \<lparr>release_state = stale, release_data = None\<rparr>)])])],
      free_index = [],
      location_checks = [(0, 1) \<mapsto> {10}],
      on_changed_calls = [],
      notify_calls = []\<rparr>"

section \<open>Wire codec: the object hook of \<^verbatim>\<open>decode\<close>\<close>

text \<open>
  \<^verbatim>\<open>decode\<close> is \<^verbatim>\<open>JSONDecoder(object_hook=_object_hook).decode\<close>: the decoder of the
  standard library parses the text and calls \<^verbatim>\<open>_object_hook\<close> on every JSON object, after
  the members of the object were decoded, putting the result in the place of the object.
  The values the hook meets are the Python values a JSON text decodes to (\<^verbatim>\<open>None\<close>,
  booleans, integers, finite floats, strings, lists, dictionaries with string keys) and the
  values the hook itself has built further in: the three named tuples of the allowlist, the
  empty tuple that is the default of \<^verbatim>\<open>group_members\<close>, and \<^verbatim>\<open>Version\<close>.
\<close>

datatype cls = NetworkPlayer | NetworkItem | NetworkSlot

datatype pyval =
    PNone
  | PBool bool
  | PInt int
  | PFloat real
  | PStr string
  | PList "pyval list"
  | PTuple "pyval list"
  | PDict "(string \<times> pyval) list"
  | PNamedTuple cls "pyval list"
  | PVersion int int int

text \<open>
  Lists and dictionaries are unhashable; a tuple, named or not, hashes its members. A lookup
  in a dictionary hashes the key first, and raises \<^verbatim>\<open>TypeError\<close> on an unhashable one,
  also when \<^verbatim>\<open>get\<close> has a default.
\<close>

fun hashable :: "pyval \<Rightarrow> bool" where
  "hashable (PList xs) = False"
| "hashable (PDict d) = False"
| "hashable (PTuple xs) = list_all hashable xs"
| "hashable (PNamedTuple c xs) = list_all hashable xs"
| "hashable v = True"

definition dict_get :: "(string \<times> 'v) list \<Rightarrow> pyval \<Rightarrow> error + 'v option" where
  "dict_get d k =
     (if \<not> hashable k then Inl TypeError_unhashable
      else (case k of PStr s \<Rightarrow> Inr (map_of d s) | _ \<Rightarrow> Inr None))"

text \<open>
  \<^verbatim>\<open>int(x)\<close> of a string: surrounding whitespace is stripped, then an optional sign and
  decimal digits, single underscores allowed between digits. Characters are bytes here, so
  whitespace and digits beyond ASCII are not recognised.
\<close>

definition is_space :: "char \<Rightarrow> bool" where
  "is_space c = (of_char c \<in> {9, 10, 11, 12, 13, 28, 29, 30, 31, 32 :: nat})"

definition is_digit :: "char \<Rightarrow> bool" where
  "is_digit c = (48 \<le> (of_char c :: nat) \<and> (of_char c :: nat) \<le> 57)"

definition strip :: "string \<Rightarrow> string" where
  "strip s = rev (dropWhile is_space (rev (dropWhile is_space s)))"

fun parse_digits :: "bool \<Rightarrow> nat \<Rightarrow> string \<Rightarrow> nat option" where
  "parse_digits after_digit acc [] = (if after_digit then Some acc else None)"
| "parse_digits after_digit acc (c # cs) =
     (if is_digit c then parse_digits True (10 * acc + (of_char c - 48)) cs
      else if c = CHR ''_'' \<and> after_digit then parse_digits False acc cs
      else None)"

definition py_int_str :: "string \<Rightarrow> error + int" where
  "py_int_str s =
     (case strip s of
        [] \<Rightarrow> Inl (ValueError ''invalid literal for int() with base 10'')
      | c # cs \<Rightarrow>
          (case (if c = CHR ''-'' then map_option (\<lambda>n. - int n) (parse_digits False 0 cs)
                 else if c = CHR ''+'' then map_option int (parse_digits False 0 cs)
                 else map_option int (parse_digits False 0 (c # cs))) of
             None \<Rightarrow> Inl (ValueError ''invalid literal for int() with base 10'')
           | Some i \<Rightarrow> Inr i))"

text \<open>\<^verbatim>\<open>int(x)\<close> of a decoded value; a float is truncated towards zero.\<close>

fun py_int :: "pyval \<Rightarrow> error + int" where
  "py_int (PInt i) = Inr i"
| "py_int (PBool b) = Inr (if b then 1 else 0)"
| "py_int (PFloat x) = Inr (if 0 \<le> x then \<lfloor>x\<rfloor> else \<lceil>x\<rceil>)"
| "py_int (PStr s) = py_int_str s"
| "py_int v = Inl TypeError_int"

text \<open>
  \<^verbatim>\<open>get_any_version\<close>. The comprehension lower-cases the keys, a later pair replacing the
  value of an earlier one with the same lower-cased key; \<^verbatim>\<open>str.lower\<close> is modelled on
  ASCII letters. \<^verbatim>\<open>Version\<close> is the named tuple (major, minor, build) of \<^verbatim>\<open>Utils\<close>.
\<close>

definition lower_char :: "char \<Rightarrow> char" where
  "lower_char c =
     (if 65 \<le> (of_char c :: nat) \<and> (of_char c :: nat) \<le> 90 then char_of (of_char c + 32 :: nat)
      else c)"

definition lower :: "string \<Rightarrow> string" where
  "lower s = map lower_char s"

definition get_any_version :: "(string \<times> pyval) list \<Rightarrow> error + pyval" where
  "get_any_version data =
     (let data = rev (map (\<lambda>(key, v). (lower key, v)) data) in
      case getitem data ''major'' of
        Inl e \<Rightarrow> Inl e
      | Inr major_v \<Rightarrow>
          (case py_int major_v of
             Inl e \<Rightarrow> Inl e
           | Inr major \<Rightarrow>
               (case getitem data ''minor'' of
                  Inl e \<Rightarrow> Inl e
                | Inr minor_v \<Rightarrow>
                    (case py_int minor_v of
                       Inl e \<Rightarrow> Inl e
                     | Inr minor \<Rightarrow>
                         (case getitem data ''build'' of
                            Inl e \<Rightarrow> Inl e
                          | Inr build_v \<Rightarrow>
                              (case py_int build_v of
                                 Inl e \<Rightarrow> Inl e
                               | Inr build \<Rightarrow> Inr (PVersion major minor build)))))))"

text \<open>
  The three named tuples: \<^verbatim>\<open>cls._fields\<close>, the defaults of the fields that have one, and
  the call \<^verbatim>\<open>cls(**o)\<close>, which raises \<^verbatim>\<open>TypeError\<close> naming the constructor and the
  required arguments that are missing. No keyword outside \<^verbatim>\<open>cls._fields\<close> reaches the call.
\<close>

fun cls_name :: "cls \<Rightarrow> string" where
  "cls_name NetworkPlayer = ''NetworkPlayer''"
| "cls_name NetworkItem = ''NetworkItem''"
| "cls_name NetworkSlot = ''NetworkSlot''"

fun cls_fields :: "cls \<Rightarrow> string list" where
  "cls_fields NetworkPlayer = [''team'', ''slot'', ''alias'', ''name'']"
| "cls_fields NetworkItem = [''item'', ''location'', ''player'', ''flags'']"
| "cls_fields NetworkSlot = [''name'', ''game'', ''type'', ''group_members'']"

fun field_defaults :: "cls \<Rightarrow> (string \<times> pyval) list" where
  "field_defaults NetworkPlayer = []"
| "field_defaults NetworkItem = [(''flags'', PInt 0)]"
| "field_defaults NetworkSlot = [(''group_members'', PTuple [])]"

definition required_fields :: "cls \<Rightarrow> string list" where
  "required_fields c = [f \<leftarrow> cls_fields c. map_of (field_defaults c) f = None]"

definition construct :: "cls \<Rightarrow> (string \<times> pyval) list \<Rightarrow> error + pyval" where
  "construct c kwargs =
     (let missing = [f \<leftarrow> required_fields c. map_of kwargs f = None] in
      if missing \<noteq> [] then Inl (TypeError_missing (cls_name c) missing)
      else Inr (PNamedTuple c
                  (map (\<lambda>f. case map_of kwargs f of
                               Some v \<Rightarrow> v
                             | None \<Rightarrow> get_default (field_defaults c) f PNone)
                     (cls_fields c))))"

definition allowlist :: "(string \<times> cls) list" where
  "allowlist =
     [(''NetworkPlayer'', NetworkPlayer), (''NetworkItem'', NetworkItem),
      (''NetworkSlot'', NetworkSlot)]"

definition custom_hooks :: "(string \<times> ((string \<times> pyval) list \<Rightarrow> error + pyval)) list" where
  "custom_hooks = [(''Version'', get_any_version)]"

text \<open>
  \<^verbatim>\<open>_object_hook\<close>. The loop deletes from the dictionary every key that is not a field of
  the class, the discriminator \<^verbatim>\<open>"class"\<close> among them.
\<close>

definition object_hook :: "pyval \<Rightarrow> error + pyval" where
  "object_hook obj =
     (case obj of
        PDict d \<Rightarrow>
          (case dict_get custom_hooks (get_default d ''class'' PNone) of
             Inl e \<Rightarrow> Inl e
           | Inr (Some hook) \<Rightarrow> hook d
           | Inr None \<Rightarrow>
               (case dict_get allowlist (get_default d ''class'' PNone) of
                  Inl e \<Rightarrow> Inl e
                | Inr (Some c) \<Rightarrow> construct c [entry \<leftarrow> d. fst entry \<in> set (cls_fields c)]
                | Inr None \<Rightarrow> Inr obj))
      | _ \<Rightarrow> Inr obj)"

text \<open>
  The discriminators the hook recognises, and what the specification calls an untyped value:
  anything but a named tuple of the allowlist or a version.
\<close>

definition recognised :: "string list" where
  "recognised = keys custom_hooks @ keys allowlist"

fun typed :: "pyval \<Rightarrow> bool" where
  "typed (PNamedTuple c xs) = True"
| "typed (PVersion major minor build) = True"
| "typed v = False"

section \<open>Rich-text renderer\<close>

text \<open>
  What \<^verbatim>\<open>JSONtoTextParser\<close> reads of its \<^verbatim>\<open>ctx\<close>: \<^verbatim>\<open>ctx.slot\<close>, the dictionary
  \<^verbatim>\<open>ctx.player_names\<close>, and the two name resolvers
  \<^verbatim>\<open>ctx.item_names.lookup_in_slot\<close> and \<^verbatim>\<open>ctx.location_names.lookup_in_slot\<close>, which
  take an id and the owning player.
\<close>

record render_ctx =
  ctx_slot :: int
  ctx_player_names :: "(int \<times> string) list"
  ctx_item_names :: "int \<Rightarrow> int \<Rightarrow> string"
  ctx_location_names :: "int \<Rightarrow> int \<Rightarrow> string"

text \<open>
  The table \<^verbatim>\<open>color_codes\<close> of the module, the one the name \<^verbatim>\<open>color_codes\<close> in
  \<^verbatim>\<open>_handle_color\<close> and \<^verbatim>\<open>color_code\<close> refers to. (The class attribute of the same name,
  a table of hexadecimal colours with \<^verbatim>\<open>plum\<close>, \<^verbatim>\<open>slateblue\<close> and \<^verbatim>\<open>salmon\<close>, is read by
  no method of this file.)
\<close>

definition color_codes :: "(string \<times> nat) list" where
  "color_codes =
     [(''reset'', 0), (''bold'', 1), (''underline'', 4), (''black'', 30), (''red'', 31),
      (''green'', 32), (''yellow'', 33), (''blue'', 34), (''magenta'', 35), (''cyan'', 36),
      (''white'', 37), (''black_bg'', 40), (''red_bg'', 41), (''green_bg'', 42),
      (''yellow_bg'', 43), (''blue_bg'', 44), (''magenta_bg'', 45), (''cyan_bg'', 46),
      (''white_bg'', 47)]"

fun str_join :: "string \<Rightarrow> string list \<Rightarrow> string" where
  "str_join sep [] = []"
| "str_join sep [x] = x"
| "str_join sep (x # y # ys) = x @ sep @ str_join sep (y # ys)"

fun str_split :: "char \<Rightarrow> string \<Rightarrow> string list" where
  "str_split sep [] = [[]]"
| "str_split sep (c # cs) =
     (if c = sep then [] # str_split sep cs
      else (case str_split sep cs of
              [] \<Rightarrow> [[c]]
            | w # ws \<Rightarrow> (c # w) # ws))"

fun getitems :: "('k \<times> 'v) list \<Rightarrow> 'k list \<Rightarrow> error + 'v list" where
  "getitems d [] = Inr []"
| "getitems d (k # ks) =
     (case getitem d k of
        Inl e \<Rightarrow> Inl e
      | Inr v \<Rightarrow> (case getitems d ks of Inl e \<Rightarrow> Inl e | Inr vs \<Rightarrow> Inr (v # vs)))"

text \<open>\<^verbatim>\<open>color_code(*args)\<close>; \<^verbatim>\<open>'\033'\<close> is the escape character, code 27.\<close>

definition color_code :: "string list \<Rightarrow> error + string" where
  "color_code args =
     (case getitems color_codes args of
        Inl e \<Rightarrow> Inl e
      | Inr ns \<Rightarrow> Inr (char_of (27 :: nat) # ''['' @ str_join '';'' (map str_nat ns) @ ''m''))"

fun color_code_each :: "string list \<Rightarrow> error + string" where
  "color_code_each [] = Inr []"
| "color_code_each (code # codes) =
     (case color_code [code] of
        Inl e \<Rightarrow> Inl e
      | Inr s \<Rightarrow> (case color_code_each codes of Inl e \<Rightarrow> Inl e | Inr t \<Rightarrow> Inr (s @ t)))"

definition handle_text :: "JSONMessagePart \<Rightarrow> string" where
  "handle_text node = (case p_text node of None \<Rightarrow> [] | Some t \<Rightarrow> t)"

text \<open>
  \<^verbatim>\<open>_handle_color\<close>; \<open>raw\<close> selects the override of \<^verbatim>\<open>RawJSONtoTextParser\<close>, which
  returns the text alone.
\<close>

definition handle_color :: "bool \<Rightarrow> JSONMessagePart \<Rightarrow> error + string" where
  "handle_color raw node =
     (if raw then Inr (handle_text node)
      else (case p_color node of
              None \<Rightarrow> Inl KeyError
            | Some color \<Rightarrow>
                let codes = str_split CHR '';'' color in
                (case color_code_each [code \<leftarrow> codes. code \<in> set (keys color_codes)] of
                   Inl e \<Rightarrow> Inl e
                 | Inr buffer \<Rightarrow>
                     (case color_code [''reset''] of
                        Inl e \<Rightarrow> Inl e
                      | Inr reset \<Rightarrow> Inr (buffer @ handle_text node @ reset)))))"

text \<open>
  The other handlers assign to keys of the part they are given. Each returns the part as it
  is when the handler returns or raises, and the text or the exception.
\<close>

definition handle_player_id ::
  "bool \<Rightarrow> render_ctx \<Rightarrow> JSONMessagePart \<Rightarrow> JSONMessagePart \<times> (error + string)" where
  "handle_player_id raw ctx node =
     (case p_text node of
        None \<Rightarrow> (node, Inl KeyError)
      | Some t \<Rightarrow>
          (case py_int_str t of
             Inl e \<Rightarrow> (node, Inl e)
           | Inr player \<Rightarrow>
               let node = node\<lparr>p_color := Some (if player = ctx_slot ctx then ''magenta''
                                                  else ''yellow'')\<rparr>
               in (case getitem (ctx_player_names ctx) player of
                     Inl e \<Rightarrow> (node, Inl e)
                   | Inr name \<Rightarrow>
                       let node = node\<lparr>p_text := Some name\<rparr>
                       in (node, handle_color raw node))))"

definition handle_player_name ::
  "bool \<Rightarrow> JSONMessagePart \<Rightarrow> JSONMessagePart \<times> (error + string)" where
  "handle_player_name raw node =
     (let node = node\<lparr>p_color := Some ''yellow''\<rparr> in (node, handle_color raw node))"

definition handle_item_name ::
  "bool \<Rightarrow> JSONMessagePart \<Rightarrow> JSONMessagePart \<times> (error + string)" where
  "handle_item_name raw node =
     (let flags = (case p_flags node of None \<Rightarrow> 0 | Some f \<Rightarrow> f);
          node =
            (if flags = 0 then node\<lparr>p_color := Some ''cyan''\<rparr>
             else if flags AND 1 \<noteq> 0 then node\<lparr>p_color := Some ''plum''\<rparr>
             else if flags AND 2 \<noteq> 0 then node\<lparr>p_color := Some ''slateblue''\<rparr>
             else if flags AND 4 \<noteq> 0 then node\<lparr>p_color := Some ''salmon''\<rparr>
             else node\<lparr>p_color := Some ''cyan''\<rparr>)
      in (node, handle_color raw node))"

definition handle_item_id ::
  "bool \<Rightarrow> render_ctx \<Rightarrow> JSONMessagePart \<Rightarrow> JSONMessagePart \<times> (error + string)" where
  "handle_item_id raw ctx node =
     (case p_text node of
        None \<Rightarrow> (node, Inl KeyError)
      | Some t \<Rightarrow>
          (case py_int_str t of
             Inl e \<Rightarrow> (node, Inl e)
           | Inr item_id \<Rightarrow>
               (case p_player node of
                  None \<Rightarrow> (node, Inl KeyError)
                | Some player \<Rightarrow>
                    handle_item_name raw
                      (node\<lparr>p_text := Some (ctx_item_names ctx item_id player)\<rparr>))))"

definition handle_location_name ::
  "bool \<Rightarrow> JSONMessagePart \<Rightarrow> JSONMessagePart \<times> (error + string)" where
  "handle_location_name raw node =
     (let node = node\<lparr>p_color := Some ''green''\<rparr> in (node, handle_color raw node))"

definition handle_location_id ::
  "bool \<Rightarrow> render_ctx \<Rightarrow> JSONMessagePart \<Rightarrow> JSONMessagePart \<times> (error + string)" where
  "handle_location_id raw ctx node =
     (case p_text node of
        None \<Rightarrow> (node, Inl KeyError)
      | Some t \<Rightarrow>
          (case py_int_str t of
             Inl e \<Rightarrow> (node, Inl e)
           | Inr location_id \<Rightarrow>
               (case p_player node of
                  None \<Rightarrow> (node, Inl KeyError)
                | Some player \<Rightarrow>
                    handle_location_name raw
                      (node\<lparr>p_text := Some (ctx_location_names ctx location_id player)\<rparr>))))"

definition handle_entrance_name ::
  "bool \<Rightarrow> JSONMessagePart \<Rightarrow> JSONMessagePart \<times> (error + string)" where
  "handle_entrance_name raw node =
     (let node = node\<lparr>p_color := Some ''blue''\<rparr> in (node, handle_color raw node))"

text \<open>
  \<^verbatim>\<open>handle_node\<close>: \<^verbatim>\<open>HandlerMeta\<close> files every method \<^verbatim>\<open>_handle_X\<close> under \<^verbatim>\<open>X\<close>, and a
  type that is absent or is no key selects the handler of \<^verbatim>\<open>text\<close>.
\<close>

definition handle_node ::
  "bool \<Rightarrow> render_ctx \<Rightarrow> JSONMessagePart \<Rightarrow> JSONMessagePart \<times> (error + string)" where
  "handle_node raw ctx node =
     (let node_type = p_type node in
      if node_type = Some ''color'' then (node, handle_color raw node)
      else if node_type = Some ''text'' then (node, Inr (handle_text node))
      else if node_type = Some ''player_id'' then handle_player_id raw ctx node
      else if node_type = Some ''player_name'' then handle_player_name raw node
      else if node_type = Some ''item_name'' then handle_item_name raw node
      else if node_type = Some ''item_id'' then handle_item_id raw ctx node
      else if node_type = Some ''location_name'' then handle_location_name raw node
      else if node_type = Some ''location_id'' then handle_location_id raw ctx node
      else if node_type = Some ''entrance_name'' then handle_entrance_name raw node
      else (node, Inr (handle_text node)))"





definition example_render_ctx :: render_ctx where
  "example_render_ctx =
     \<lparr>ctx_slot = 1, ctx_player_names = [(1, ''Alice''), (2, ''Bob'')],
      ctx_item_names = (\<lambda>item_id player. ''Item'' @ str_int item_id @ ''/'' @ str_int player),
      ctx_location_names = (\<lambda>location_id player. ''Loc'' @ str_int location_id)\<rparr>"


section \<open>Theorems: Location Store\<close>

lemma card_keys_dict: "is_dict al \<Longrightarrow> card (set (keys al)) = length al"
proof -
  assume "is_dict al"
  hence "distinct (keys al)" by (simp add: is_dict_def keys_def)
  hence "card (set (keys al)) = length (keys al)" by (rule distinct_card)
  thus ?thesis by (simp add: keys_def)
qed

text \<open>
  A mapping whose player ids are exactly \<open>1..N\<close> is accepted by the constructor: no key is
  0, so the third check cannot fire.
\<close>

lemma LocationStore_init_accepts_1_to_N:
  assumes "is_dict vals" and "spec_player_ids_1_to_N vals"
  shows "LocationStore_init vals = Inr vals"
proof -
  from assms(2) obtain N where N: "1 \<le> N" "set (keys vals) = {1..N}"
    by (auto simp: spec_player_ids_1_to_N_def)
  have ne: "vals \<noteq> []" using N by (auto simp: keys_def)
  have len: "int (length vals) = N" using card_keys_dict [OF assms(1)] N by simp
  have mx: "Max (set (keys vals)) = N" using N by (simp add: Max_eq_iff)
  have "0 \<notin> set (keys vals)" using N by simp
  hence "map_of vals 0 = None" by (simp add: keys_def map_of_eq_None_iff)
  thus ?thesis using ne len mx by (simp add: LocationStore_init_def get_default_def)
qed

text \<open>
  When every player id is positive, the comparison of \<^verbatim>\<open>len(self)\<close> with \<^verbatim>\<open>max(self)\<close>
  does decide contiguity: an accepted mapping has the ids \<open>1..N\<close>.
\<close>

lemma LocationStore_init_positive_keys:
  assumes d: "is_dict vals" and p: "\<forall>k \<in> set (keys vals). 1 \<le> k"
    and r: "LocationStore_init vals = Inr vals'"
  shows "spec_player_ids_1_to_N vals"
proof -
  from r have ne: "vals \<noteq> []" and len: "int (length vals) = Max (set (keys vals))"
    by (auto simp: LocationStore_init_def split: if_splits)
  let ?K = "set (keys vals)"
  let ?N = "Max ?K"
  have fin: "finite ?K" by simp
  have kne: "?K \<noteq> {}" using ne by (simp add: keys_def)
  have sub: "?K \<subseteq> {1..?N}" using p by (auto intro: Max_ge)
  have "int (card ?K) = ?N" using card_keys_dict [OF d] len by simp
  moreover have "1 \<le> ?N" using p Max_in [OF fin kne] by blast
  ultimately have "card ?K = card {1..?N}" by simp
  hence "?K = {1..?N}" using sub by (simp add: card_subset_eq)
  thus ?thesis using \<open>1 \<le> ?N\<close> unfolding spec_player_ids_1_to_N_def by blast
qed

text \<open>
  A key 0 without locations passes the third check but counts in \<^verbatim>\<open>len(self)\<close>: next to
  the complete ids 1 and 2 it makes the constructor raise.
\<close>

lemma LocationStore_init_rejects_empty_player_0:
  "LocationStore_init [(0, []), (1, [(10, (5, 2, 0))]), (2, [(10, (5, 1, 0))])]
     = Inl (ValueError ''Player IDs not continuous'')"
  by (simp add: LocationStore_init_def keys_def)

text \<open>
  C1. The claim: construction succeeds if and only if the player ids are exactly \<open>1..N\<close>
  for some \<open>N \<ge> 1\<close> and player 0 owns no location. The constructor compares the number of
  keys with the largest key, and a key 0 with no location fills the place of a missing
  positive id: the mapping \<^verbatim>\<open>{0: {}, 2: {10: (5, 2, 0)}}\<close> has two keys, largest key 2 and
  nothing stored under 0, so all three checks pass and the store is built, although its
  player ids \<open>{0, 2}\<close> are not \<open>1..N\<close> for any \<open>N\<close> (player 1 is missing).
\<close>

theorem LocationStore_init_accepts_gap:
  "LocationStore_init [(0, []), (2, [(10, (5, 2, 0))])] = Inr [(0, []), (2, [(10, (5, 2, 0))])]
   \<and> is_dict [(0::int, []), (2, [(10::int, (5::int, 2::int, 0::int))])]
   \<and> spec_no_location_of_player_0 [(0, []), (2, [(10, (5, 2, 0))])]
   \<and> \<not> spec_player_ids_1_to_N [(0, []), (2, [(10, (5, 2, 0))])]"
proof -
  have "\<not> spec_player_ids_1_to_N [(0, []), (2, [(10, (5, 2, 0))])]"
  proof
    assume "spec_player_ids_1_to_N [(0, []), (2, [(10, (5, 2, 0))])]"
    then obtain N :: int where "{0, 2} = {1..N}"
      by (auto simp: spec_player_ids_1_to_N_def keys_def)
    hence "(0::int) \<in> {1..N}" by blast
    thus False by simp
  qed
  thus ?thesis
    by (simp add: LocationStore_init_def keys_def get_default_def is_dict_def
        spec_no_location_of_player_0_def)
qed

text \<open>
  C6. For every store, every check-state with an entry for (team, slot) and every slot of
  the store, \<^verbatim>\<open>get_checked\<close> and \<^verbatim>\<open>get_missing\<close> both return, the two lists share no
  location id, and together they hold exactly the location ids of the slot.
\<close>

theorem get_checked_get_missing_partition:
  assumes "st (team, slot) = Some checked" and "map_of store slot = Some locs"
  shows "\<exists>c m. get_checked store st team slot = Inr c \<and> get_missing store st team slot = Inr m
           \<and> set c \<inter> set m = {} \<and> set c \<union> set m = set (keys locs)"
  using assms
  by (auto simp: get_checked_def get_missing_def state_getitem_def getitem_def)

theorem get_checked_get_missing_partition_witness:
  "\<exists>c m. get_checked [(1, [(10, (5, 1, 0)), (20, (6, 1, 0)), (30, (5, 1, 0))])]
             [(0, 1) \<mapsto> {20}] 0 1 = Inr c
         \<and> get_missing [(1, [(10, (5, 1, 0)), (20, (6, 1, 0)), (30, (5, 1, 0))])]
             [(0, 1) \<mapsto> {20}] 0 1 = Inr m
         \<and> set c \<inter> set m = {} \<and> set c \<union> set m = {10, 20, 30}"
  using get_checked_get_missing_partition
    [of "[(0, 1) \<mapsto> {20}]" 0 1 "{20}"
        "[(1, [(10, (5, 1, 0)), (20, (6, 1, 0)), (30, (5, 1, 0))])]"
        "[(10, (5, 1, 0)), (20, (6, 1, 0)), (30, (5, 1, 0))]"]
  by (simp add: keys_def insert_commute)

text \<open>
  C7. For every store, every check-state with an entry for (team, slot) and every slot of
  the store, \<^verbatim>\<open>get_remaining\<close> returns a list as long as the one \<^verbatim>\<open>get_missing\<close>
  returns, sorted ascending, and holding the item id of every location that is not checked
  as often as it occurs: the multiset of the item ids, no duplicate dropped.
\<close>

theorem get_remaining_sorted_multiset:
  assumes "st (team, slot) = Some checked" and "map_of store slot = Some locs"
  shows "\<exists>r m. get_remaining store st team slot = Inr r \<and> get_missing store st team slot = Inr m
           \<and> length r = length m \<and> sorted r
           \<and> mset r = mset (map (\<lambda>e. fst (snd e)) [e \<leftarrow> locs. fst e \<notin> checked])"
  using assms
  by (auto simp: get_remaining_def get_missing_def state_getitem_def getitem_def keys_def
      filter_map o_def)

theorem get_remaining_sorted_multiset_witness:
  "\<exists>r m. get_remaining [(1, [(10, (5, 1, 0)), (20, (6, 1, 0)), (30, (5, 1, 0)), (40, (2, 1, 0))])]
             [(0, 1) \<mapsto> {20}] 0 1 = Inr r
         \<and> get_missing [(1, [(10, (5, 1, 0)), (20, (6, 1, 0)), (30, (5, 1, 0)), (40, (2, 1, 0))])]
             [(0, 1) \<mapsto> {20}] 0 1 = Inr m
         \<and> length r = length m \<and> sorted r \<and> mset r = {#2, 5, 5#}"
  using get_remaining_sorted_multiset
    [of "[(0, 1) \<mapsto> {20}]" 0 1 "{20}"
        "[(1, [(10, (5, 1, 0)), (20, (6, 1, 0)), (30, (5, 1, 0)), (40, (2, 1, 0))])]"
        "[(10, (5, 1, 0)), (20, (6, 1, 0)), (30, (5, 1, 0)), (40, (2, 1, 0))]"]
  by (simp add: add_mset_commute)

section \<open>Theorems: Hint\<close>

text \<open>
  C3. The claim: two hints that agree on (receiving player, finding player, location, item,
  entrance) and differ in the found flag or in the item flags are equal and have equal
  hashes. Amended: such hints have equal hashes, whatever the built-in tuple hash is, and
  are not equal, since equality is that of the seven-field tuple.
\<close>

theorem Hint_same_identity_same_hash_not_equal:
  assumes "spec_identity h1 = spec_identity h2"
    and "Hint_found h1 \<noteq> Hint_found h2 \<or> Hint_item_flags h1 \<noteq> Hint_item_flags h2"
  shows "Hint_hash hash h1 = Hint_hash hash h2 \<and> \<not> Hint_eq h1 h2"
  using assms by (cases h1; cases h2) auto

theorem Hint_same_identity_same_hash_not_equal_witness:
  "spec_identity (Hint 1 2 100 7 False ''cave'' 1) = spec_identity (Hint 1 2 100 7 True ''cave'' 1)
   \<and> Hint_found (Hint 1 2 100 7 False ''cave'' 1) \<noteq> Hint_found (Hint 1 2 100 7 True ''cave'' 1)
   \<and> Hint_hash (\<lambda>(a, b, c, d, e). a + b + c + d + int (length e)) (Hint 1 2 100 7 False ''cave'' 1)
       = Hint_hash (\<lambda>(a, b, c, d, e). a + b + c + d + int (length e)) (Hint 1 2 100 7 True ''cave'' 1)
   \<and> \<not> Hint_eq (Hint 1 2 100 7 False ''cave'' 1) (Hint 1 2 100 7 True ''cave'' 1)"
  using Hint_same_identity_same_hash_not_equal
    [of "Hint 1 2 100 7 False ''cave'' 1" "Hint 1 2 100 7 True ''cave'' 1"
        "\<lambda>(a, b, c, d, e). a + b + c + d + int (length e)"]
  by simp

text \<open>
  The claim as stated is false: two hints that agree on the five identity fields and differ
  in \<open>found\<close> are not equal.
\<close>

theorem Hint_found_flag_breaks_equality:
  "\<not> (\<forall>hash h1 h2. spec_identity h1 = spec_identity h2
         \<and> (Hint_found h1 \<noteq> Hint_found h2 \<or> Hint_item_flags h1 \<noteq> Hint_item_flags h2)
        \<longrightarrow> Hint_eq h1 h2 \<and> Hint_hash hash h1 = Hint_hash hash h2)"
proof
  assume a: "\<forall>hash h1 h2. spec_identity h1 = spec_identity h2
         \<and> (Hint_found h1 \<noteq> Hint_found h2 \<or> Hint_item_flags h1 \<noteq> Hint_item_flags h2)
        \<longrightarrow> Hint_eq h1 h2 \<and> Hint_hash hash h1 = Hint_hash hash h2"
  have "Hint_eq (Hint 1 2 100 7 False ''cave'' 1) (Hint 1 2 100 7 True ''cave'' 1)"
    using a [rule_format, of "Hint 1 2 100 7 False ''cave'' 1" "Hint 1 2 100 7 True ''cave'' 1" "\<lambda>_. 0"]
    by simp
  thus False by simp
qed

section \<open>Theorems: hint release state machine\<close>

lemma get_modify_same:
  "get_team_data ctx team h = Inr d \<Longrightarrow> get_team_data (modify_team_data ctx team h f) team h = Inr (f d)"
  by (auto simp: get_team_data_def modify_team_data_def map_of_map_entry split: option.splits)

lemma get_modify_other:
  "h' \<noteq> h \<Longrightarrow> get_team_data (modify_team_data ctx team h f) team h' = get_team_data ctx team h'"
  by (auto simp: get_team_data_def modify_team_data_def map_of_map_entry split: option.splits)

lemma modify_fields [simp]:
  "location_checks (modify_team_data ctx team h f) = location_checks ctx"
  "on_changed_calls (modify_team_data ctx team h f) = on_changed_calls ctx"
  "notify_calls (modify_team_data ctx team h f) = notify_calls ctx"
  "triggerable_hints (modify_team_data ctx team h f) = triggerable_hints ctx"
  "free_index (modify_team_data ctx team h f) = free_index ctx"
  by (simp_all add: modify_team_data_def)

lemma state_of_modify_same:
  "get_team_data ctx team h = Inr d \<Longrightarrow>
   state_of (modify_team_data ctx team h f) team h = Some (release_state (f d))"
  by (simp add: state_of_def get_modify_same)

lemma state_of_modify_other:
  "h' \<noteq> h \<Longrightarrow> state_of (modify_team_data ctx team h f) team h' = state_of ctx team h'"
  by (simp add: state_of_def get_modify_other)

lemma csb_step:
  assumes s: "state_of ctx team h = Some s"
    and r: "s = stale \<Longrightarrow> \<exists>d. get_release_data (location_checks ctx) team h = Inr d"
  shows "\<exists>ctx'. check_and_set_broadcasted ctx team h = Inr (ctx', s = stale \<or> s = fresh)
           \<and> passed ctx team {h} ctx'"
proof -
  from s obtain d where d: "get_team_data ctx team h = Inr d" "release_state d = s"
    by (auto simp: state_of_def split: sum.splits)
  show ?thesis
  proof (cases s)
    case unreleased
    then show ?thesis using d s by (simp add: check_and_set_broadcasted_def passed_def)
  next
    case broadcasted
    then show ?thesis using d s by (simp add: check_and_set_broadcasted_def passed_def)
  next
    case fresh
    let ?c = "modify_team_data ctx team h (\<lambda>d. d\<lparr>release_state := broadcasted\<rparr>)"
    have "check_and_set_broadcasted ctx team h = Inr (?c, True)"
      using d fresh by (simp add: check_and_set_broadcasted_def)
    moreover have "passed ctx team {h} ?c"
      using d s fresh by (auto simp: passed_def state_of_modify_same state_of_modify_other)
    ultimately show ?thesis using fresh by auto
  next
    case stale
    from r [OF stale] obtain data where data: "get_release_data (location_checks ctx) team h = Inr data"
      by blast
    let ?c1 = "modify_team_data ctx team h (\<lambda>d. d\<lparr>release_data := Some data, release_state := fresh\<rparr>)"
    let ?c = "modify_team_data ?c1 team h (\<lambda>d. d\<lparr>release_state := broadcasted\<rparr>)"
    have rc: "re_check ctx team h = Inr (?c1, Some data)"
      using d stale data by (simp add: re_check_def)
    have g1: "get_team_data ?c1 team h = Inr (d\<lparr>release_data := Some data, release_state := fresh\<rparr>)"
      using d by (simp add: get_modify_same)
    have "check_and_set_broadcasted ctx team h = Inr (?c, True)"
      using d stale rc g1 by (simp add: check_and_set_broadcasted_def)
    moreover have "passed ctx team {h} ?c"
      using d s stale g1 by (auto simp: passed_def state_of_modify_same state_of_modify_other)
    ultimately show ?thesis using stale by auto
  qed
qed

lemma passed_trans:
  assumes "passed ctx team A ctx1" "passed ctx1 team B ctx2" "A \<inter> B = {}"
  shows "passed ctx team (A \<union> B) ctx2"
  using assms unfolding passed_def by (auto split: if_splits)

lemma passed_state_outside: "passed ctx team A ctx1 \<Longrightarrow> h \<notin> A \<Longrightarrow> state_of ctx1 team h = state_of ctx team h"
  by (simp add: passed_def)

lemma set_fold_set_add: "set (fold (\<lambda>x. set_add (f x)) xs acc) = set acc \<union> f ` set xs"
  by (induction xs arbitrary: acc) (auto simp: set_add_def)

lemma distinct_fold_set_add: "distinct acc \<Longrightarrow> distinct (fold (\<lambda>x. set_add (f x)) xs acc)"
  by (induction xs arbitrary: acc) (auto simp: set_add_def)

lemma scan_hints_post:
  assumes "distinct hs"
    and "list_all (\<lambda>h. state_of ctx team h \<noteq> None) hs"
    and "\<And>h. h \<in> set hs \<Longrightarrow> state_of ctx team h = Some stale \<Longrightarrow>
           \<exists>d. get_release_data (location_checks ctx) team h = Inr d"
  shows "\<exists>ctx' needed'. scan_hints ctx team ty hs needed = Inr (ctx', needed')
           \<and> passed ctx team (set hs) ctx'
           \<and> set needed' = set needed \<union> {(p, ty) | p h. h \<in> set hs \<and> due ctx team h \<and> p \<in> set (get_recipients h)}
           \<and> (distinct needed \<longrightarrow> distinct needed')"
  using assms
proof (induction hs arbitrary: ctx needed)
  case Nil
  then show ?case by (simp add: passed_def)
next
  case (Cons h hs)
  from Cons.prems(2) obtain s where s: "state_of ctx team h = Some s" by auto
  have "s = stale \<Longrightarrow> \<exists>d. get_release_data (location_checks ctx) team h = Inr d"
    using Cons.prems(3) [of h] s by simp
  from csb_step [OF s this] obtain ctx1 where
    c1: "check_and_set_broadcasted ctx team h = Inr (ctx1, s = stale \<or> s = fresh)"
    and p1: "passed ctx team {h} ctx1" by blast
  have same: "\<And>h'. h' \<in> set hs \<Longrightarrow> state_of ctx1 team h' = state_of ctx team h'"
    using p1 Cons.prems(1) by (intro passed_state_outside [OF p1]) auto
  have lc: "location_checks ctx1 = location_checks ctx" using p1 by (simp add: passed_def)
  let ?n1 = "if s = stale \<or> s = fresh
             then fold (\<lambda>player. set_add (player, ty)) (get_recipients h) needed else needed"
  have d: "distinct hs" using Cons.prems(1) by simp
  have a: "list_all (\<lambda>h. state_of ctx1 team h \<noteq> None) hs"
    using Cons.prems(2) same by (simp add: list_all_iff)
  have r: "\<And>h'. h' \<in> set hs \<Longrightarrow> state_of ctx1 team h' = Some stale \<Longrightarrow>
           \<exists>d. get_release_data (location_checks ctx1) team h' = Inr d"
    using Cons.prems(3) same lc by simp
  from Cons.IH [OF d a r, of ?n1] obtain ctx' needed' where
    sc: "scan_hints ctx1 team ty hs ?n1 = Inr (ctx', needed')"
    and p2: "passed ctx1 team (set hs) ctx'"
    and n: "set needed' = set ?n1 \<union> {(p, ty) | p h. h \<in> set hs \<and> due ctx1 team h \<and> p \<in> set (get_recipients h)}"
    and dn: "distinct ?n1 \<longrightarrow> distinct needed'" by blast
  have sc': "scan_hints ctx team ty (h # hs) needed = Inr (ctx', needed')"
    using c1 sc by simp
  have "passed ctx team ({h} \<union> set hs) ctx'"
    using passed_trans [OF p1 p2] Cons.prems(1) by simp
  hence pp: "passed ctx team (set (h # hs)) ctx'" by simp
  have due_same: "\<And>h'. h' \<in> set hs \<Longrightarrow> due ctx1 team h' = due ctx team h'"
    using same by (simp add: due_def)
  have dueh: "due ctx team h = (s = stale \<or> s = fresh)" using s by (auto simp: due_def)
  have sn1: "set ?n1 = set needed \<union> {(p, ty) | p. due ctx team h \<and> p \<in> set (get_recipients h)}"
    using dueh by (auto simp: set_fold_set_add)
  have nn: "set needed' = set needed \<union> {(p, ty) | p h'. h' \<in> set (h # hs) \<and> due ctx team h' \<and> p \<in> set (get_recipients h')}"
    unfolding n sn1 using due_same by auto
  have dd: "distinct needed \<longrightarrow> distinct needed'"
    using dn by (auto simp: distinct_fold_set_add)
  show ?case using sc' pp nn dd by blast
qed


lemma hints_of_simps [simp]:
  "hints_of [] = {}"
  "hints_of ((ty, d) # tds) = set (keys d) \<union> hints_of tds"
  by (auto simp: hints_of_def)

lemma well_formed_team_Cons:
  "well_formed_team ((ty, d) # tds) \<Longrightarrow>
     well_formed_team tds \<and> distinct (keys d) \<and> (\<forall>h \<in> set (keys d). type_of h = ty)
     \<and> set (keys d) \<inter> hints_of tds = {}"
  by (fastforce simp: well_formed_team_def is_dict_def keys_def hints_of_def list_all_iff)

lemma scan_types_post:
  assumes "well_formed_team tds"
    and "\<And>h. h \<in> hints_of tds \<Longrightarrow> state_of ctx team h \<noteq> None"
    and "\<And>h. h \<in> hints_of tds \<Longrightarrow> state_of ctx team h = Some stale \<Longrightarrow>
           \<exists>d. get_release_data (location_checks ctx) team h = Inr d"
  shows "\<exists>ctx' needed'. scan_types ctx team tds needed = Inr (ctx', needed')
           \<and> passed ctx team (hints_of tds) ctx'
           \<and> set needed' = set needed \<union> {(p, type_of h) | p h. h \<in> hints_of tds \<and> due ctx team h \<and> p \<in> set (get_recipients h)}
           \<and> (distinct needed \<longrightarrow> distinct needed')"
  using assms
proof (induction tds arbitrary: ctx needed)
  case Nil
  then show ?case by (simp add: passed_def)
next
  case (Cons a tds)
  obtain ty d where a: "a = (ty, d)" by (cases a)
  from well_formed_team_Cons [OF Cons.prems(1) [unfolded a]]
  have wf: "well_formed_team tds" and dk: "distinct (keys d)"
    and ty: "\<forall>h \<in> set (keys d). type_of h = ty" and dj: "set (keys d) \<inter> hints_of tds = {}"
    by blast+
  have la: "list_all (\<lambda>h. state_of ctx team h \<noteq> None) (keys d)"
    using Cons.prems(2) a by (simp add: list_all_iff)
  have rr: "\<And>h. h \<in> set (keys d) \<Longrightarrow> state_of ctx team h = Some stale \<Longrightarrow>
           \<exists>d. get_release_data (location_checks ctx) team h = Inr d"
    using Cons.prems(3) a by simp
  from scan_hints_post [OF dk la rr, of ty needed] obtain ctx1 needed1 where
    s1: "scan_hints ctx team ty (keys d) needed = Inr (ctx1, needed1)"
    and p1: "passed ctx team (set (keys d)) ctx1"
    and n1: "set needed1 = set needed \<union> {(p, ty) | p h. h \<in> set (keys d) \<and> due ctx team h \<and> p \<in> set (get_recipients h)}"
    and d1: "distinct needed \<longrightarrow> distinct needed1" by blast
  have same: "\<And>h. h \<in> hints_of tds \<Longrightarrow> state_of ctx1 team h = state_of ctx team h"
    using dj by (intro passed_state_outside [OF p1]) auto
  have lc: "location_checks ctx1 = location_checks ctx" using p1 by (simp add: passed_def)
  have a2: "\<And>h. h \<in> hints_of tds \<Longrightarrow> state_of ctx1 team h \<noteq> None"
    using Cons.prems(2) a same by simp
  have r2: "\<And>h. h \<in> hints_of tds \<Longrightarrow> state_of ctx1 team h = Some stale \<Longrightarrow>
           \<exists>d. get_release_data (location_checks ctx1) team h = Inr d"
    using Cons.prems(3) a same lc by simp
  from Cons.IH [OF wf a2 r2, of needed1] obtain ctx' needed' where
    s2: "scan_types ctx1 team tds needed1 = Inr (ctx', needed')"
    and p2: "passed ctx1 team (hints_of tds) ctx'"
    and n2: "set needed' = set needed1 \<union> {(p, type_of h) | p h. h \<in> hints_of tds \<and> due ctx1 team h \<and> p \<in> set (get_recipients h)}"
    and d2: "distinct needed1 \<longrightarrow> distinct needed'" by blast
  have sc: "scan_types ctx team (a # tds) needed = Inr (ctx', needed')"
    using a s1 s2 by simp
  have pp: "passed ctx team (hints_of (a # tds)) ctx'"
    using passed_trans [OF p1 p2 dj] a by simp
  have due_same: "\<And>h. h \<in> hints_of tds \<Longrightarrow> due ctx1 team h = due ctx team h"
    using same by (simp add: due_def)
  have n1': "set needed1 = set needed \<union> {(p, type_of h) | p h. h \<in> set (keys d) \<and> due ctx team h \<and> p \<in> set (get_recipients h)}"
    unfolding n1 using ty by fastforce
  have nn: "set needed' = set needed \<union> {(p, type_of h) | p h. h \<in> hints_of (a # tds) \<and> due ctx team h \<and> p \<in> set (get_recipients h)}"
    unfolding n2 n1' a using due_same by auto
  show ?case using sc pp nn d1 d2 by blast
qed

lemma state_of_well_formed:
  assumes "team_data ctx = Some all_team_data" "map_of all_team_data team = Some for_team"
    and "well_formed_team for_team" "h \<in> hints_of for_team"
  shows "state_of ctx team h \<noteq> None"
proof -
  from assms(4) obtain ty d where m: "(ty, d) \<in> set for_team" "h \<in> set (keys d)"
    by (auto simp: hints_of_def)
  from assms(3) m have "distinct (map fst for_team)" "type_of h = ty"
    by (auto simp: well_formed_team_def is_dict_def list_all_iff)
  hence "map_of for_team (type_of h) = Some d" using m by simp
  moreover from m(2) obtain v where "map_of d h = Some v"
    by (cases "map_of d h") (auto simp: keys_def map_of_eq_None_iff)
  ultimately show ?thesis using assms(1,2) by (simp add: state_of_def get_team_data_def)
qed

lemma ensure_team_init_initialised:
  assumes "team_data ctx = Some all_team_data" "map_of all_team_data team = Some for_team"
  shows "ensure_team_init ctx team = Inr ctx"
proof -
  have "team \<in> set (keys all_team_data)" using assms(2) by (auto simp: keys_def dest: map_of_SomeD intro: rev_image_eqI)
  moreover have "ctx\<lparr>team_data := Some all_team_data\<rparr> = ctx" using assms(1) by simp
  ultimately show ?thesis using assms(1) by (simp add: ensure_team_init_def)
qed

lemma state_of_calls [simp]: "state_of (ctx\<lparr>on_changed_calls := x\<rparr>) team h = state_of ctx team h"
  by (simp add: state_of_def get_team_data_def)

lemma distinct_calls: "distinct needed \<Longrightarrow> distinct (map (\<lambda>(player, hint_type). (team, player, hint_type)) needed)"
  by (rule iffD2 [OF distinct_map]) (auto simp: inj_on_def)

lemma newly_broadcasted_passed:
  assumes p: "passed ctx team H ctx1"
  shows "newly_broadcasted ctx (ctx1\<lparr>on_changed_calls := x\<rparr>) team h = (h \<in> H \<and> due ctx team h)"
proof -
  have s: "state_of (ctx1\<lparr>on_changed_calls := x\<rparr>) team h =
        (if h \<in> H \<and> (state_of ctx team h = Some stale \<or> state_of ctx team h = Some fresh)
         then Some broadcasted else state_of ctx team h)"
    using p by (simp add: passed_def)
  show ?thesis unfolding newly_broadcasted_def due_def s by auto
qed

lemma scan_types_well_formed:
  assumes td: "team_data ctx = Some all_team_data" and tm: "map_of all_team_data team = Some for_team"
    and wf: "well_formed_team for_team"
    and rel: "\<forall>h. state_of ctx team h = Some stale \<longrightarrow>
                (\<exists>d. get_release_data (location_checks ctx) team h = Inr d)"
  shows "\<exists>ctx1 needed. scan_types ctx team for_team [] = Inr (ctx1, needed)
    \<and> passed ctx team (hints_of for_team) ctx1
    \<and> set needed = {(p, type_of h) | p h. h \<in> hints_of for_team \<and> due ctx team h \<and> p \<in> set (get_recipients h)}
    \<and> distinct needed"
proof -
  have a: "\<And>h. h \<in> hints_of for_team \<Longrightarrow> state_of ctx team h \<noteq> None"
    using state_of_well_formed [OF td tm wf] .
  have r: "\<And>h. h \<in> hints_of for_team \<Longrightarrow> state_of ctx team h = Some stale \<Longrightarrow>
           \<exists>d. get_release_data (location_checks ctx) team h = Inr d"
    using rel by blast
  from scan_types_post [where needed = "[]", OF wf a r] obtain ctx1 needed where
    sc: "scan_types ctx team for_team [] = Inr (ctx1, needed)"
    and p: "passed ctx team (hints_of for_team) ctx1"
    and n0: "set needed = set [] \<union> {(p, type_of h) | p h. h \<in> hints_of for_team \<and> due ctx team h \<and> p \<in> set (get_recipients h)}"
    and d0: "distinct ([] :: (int \<times> hint_class) list) \<longrightarrow> distinct needed" by blast
  have n: "set needed = {(p, type_of h) | p h. h \<in> hints_of for_team \<and> due ctx team h \<and> p \<in> set (get_recipients h)}"
    using n0 by (simp only: list.set Un_empty_left)
  have d: "distinct needed" using d0 by (simp only: distinct.simps)
  show ?thesis using sc p n d by blast
qed


text \<open>
  C8. For a team whose state is initialised (a well-formed dictionary under the team) and
  whose stale hints can compute their release data, \<^verbatim>\<open>broadcast_updates\<close> returns, and the
  calls of \<^verbatim>\<open>ctx.on_changed_triggerable_hints\<close> it adds are pairwise different and are
  exactly the triples (team, recipient, hint class) of the hints that newly transitioned to
  \<open>broadcasted\<close> in this pass: one call for each pair, however many hints share it.
\<close>

theorem broadcast_updates_one_call_per_pair:
  assumes td: "team_data ctx = Some all_team_data" and tm: "map_of all_team_data team = Some for_team"
    and wf: "well_formed_team for_team"
    and rel: "\<forall>h. state_of ctx team h = Some stale \<longrightarrow>
                (\<exists>d. get_release_data (location_checks ctx) team h = Inr d)"
  shows "\<exists>ctx' calls. broadcast_updates ctx team = Inr ctx'
           \<and> on_changed_calls ctx' = on_changed_calls ctx @ calls
           \<and> distinct calls
           \<and> set calls = {(team, player, type_of h) | player h.
                            newly_broadcasted ctx ctx' team h \<and> player \<in> set (get_recipients h)}"
proof -
  from scan_types_well_formed [OF td tm wf rel] obtain ctx1 needed where
    sc: "scan_types ctx team for_team [] = Inr (ctx1, needed)"
    and p: "passed ctx team (hints_of for_team) ctx1"
    and n: "set needed = {(p, type_of h) | p h. h \<in> hints_of for_team \<and> due ctx team h \<and> p \<in> set (get_recipients h)}"
    and d: "distinct needed" by blast
  let ?calls = "map (\<lambda>(player, hint_type). (team, player, hint_type)) needed"
  let ?ctx' = "ctx1\<lparr>on_changed_calls := on_changed_calls ctx1 @ ?calls\<rparr>"
  have bp: "broadcast_pass ctx team = Inr ?ctx'"
    using td tm sc by (simp add: broadcast_pass_def)
  have bu: "broadcast_updates ctx team = Inr ?ctx'"
    using ensure_team_init_initialised [OF td tm] bp by (simp add: broadcast_updates_def)
  have oc: "on_changed_calls ?ctx' = on_changed_calls ctx @ ?calls"
    using p by (simp add: passed_def)
  have dc: "distinct ?calls" using d by (rule distinct_calls)
  have sc: "set ?calls = {(team, player, type_of h) | player h.
                            newly_broadcasted ctx ?ctx' team h \<and> player \<in> set (get_recipients h)}"
    unfolding newly_broadcasted_passed [OF p] set_map n by (auto simp: image_iff)
  show ?thesis using bu oc dc sc by blast
qed

lemma example_calls: "map_sum id on_changed_calls (broadcast_updates example_ctx 0)
   = Inr [(0, 1, TextHint_class), (0, 1, LocationSetHint_class)]"
  by code_simp

lemma example_state_after: "map_sum id (\<lambda>c. state_of c 0 (TextHint 1 ''a'')) (broadcast_updates example_ctx 0)
   = Inr (Some broadcasted)"
  by code_simp

lemma example_well_formed: "well_formed_team [(TextHint_class,
                [(TextHint 1 ''a'', \<lparr>release_state = stale, release_data = None\<rparr>),
                 (TextHint 1 ''b'', \<lparr>release_state = fresh, release_data = Some (TextHint 1 ''b'')\<rparr>),
                 (TextHint 2 ''c'', \<lparr>release_state = unreleased, release_data = None :: int triggered_hint option\<rparr>)]),
              (LocationSetHint_class,
                [(LocationSetHint 1 ''Cave'' ''region_items'' 8 [(10, (5, 0)), (20, (3, 0))],
                  \<lparr>release_state = stale, release_data = None\<rparr>)])]"
  by (simp add: well_formed_team_def is_dict_def keys_def)

lemma example_release_data: "\<forall>h. state_of example_ctx 0 h = Some stale \<longrightarrow>
                (\<exists>d. get_release_data (location_checks example_ctx) 0 h = Inr d)"
proof (intro allI impI)
  fix h :: "int triggered_hint"
  assume "state_of example_ctx 0 h = Some stale"
  thus "\<exists>d. get_release_data (location_checks example_ctx) 0 h = Inr d"
    by (cases h)
       (auto simp: example_ctx_def state_of_def get_team_data_def state_getitem_def
             split: if_splits)
qed


theorem broadcast_updates_one_call_per_pair_witness:
  "\<exists>ctx'. broadcast_updates example_ctx 0 = Inr ctx'
     \<and> on_changed_calls ctx' = [(0, 1, TextHint_class), (0, 1, LocationSetHint_class)]
     \<and> {(0::int, 1, TextHint_class), (0, 1, LocationSetHint_class)}
         = {(0::int, player, type_of h) | player h.
              newly_broadcasted example_ctx ctx' 0 h \<and> player \<in> set (get_recipients h)}"
proof -
  have td: "team_data example_ctx = Some [(0, [(TextHint_class,
                [(TextHint 1 ''a'', \<lparr>release_state = stale, release_data = None\<rparr>),
                 (TextHint 1 ''b'', \<lparr>release_state = fresh, release_data = Some (TextHint 1 ''b'')\<rparr>),
                 (TextHint 2 ''c'', \<lparr>release_state = unreleased, release_data = None\<rparr>)]),
              (LocationSetHint_class,
                [(LocationSetHint 1 ''Cave'' ''region_items'' 8 [(10, (5, 0)), (20, (3, 0))],
                  \<lparr>release_state = stale, release_data = None\<rparr>)])])]"
    by (simp add: example_ctx_def)
  have tm: "map_of [(0::int, [(TextHint_class,
                [(TextHint 1 ''a'', \<lparr>release_state = stale, release_data = None\<rparr>),
                 (TextHint 1 ''b'', \<lparr>release_state = fresh, release_data = Some (TextHint 1 ''b'')\<rparr>),
                 (TextHint 2 ''c'', \<lparr>release_state = unreleased, release_data = None :: int triggered_hint option\<rparr>)]),
              (LocationSetHint_class,
                [(LocationSetHint 1 ''Cave'' ''region_items'' 8 [(10, (5, 0)), (20, (3, 0))],
                  \<lparr>release_state = stale, release_data = None\<rparr>)])])] 0
        = Some [(TextHint_class,
                [(TextHint 1 ''a'', \<lparr>release_state = stale, release_data = None\<rparr>),
                 (TextHint 1 ''b'', \<lparr>release_state = fresh, release_data = Some (TextHint 1 ''b'')\<rparr>),
                 (TextHint 2 ''c'', \<lparr>release_state = unreleased, release_data = None\<rparr>)]),
              (LocationSetHint_class,
                [(LocationSetHint 1 ''Cave'' ''region_items'' 8 [(10, (5, 0)), (20, (3, 0))],
                  \<lparr>release_state = stale, release_data = None\<rparr>)])]"
    by simp
  from broadcast_updates_one_call_per_pair [OF td tm example_well_formed example_release_data]
  obtain ctx' calls where
    b: "broadcast_updates example_ctx 0 = Inr ctx'"
    and c: "on_changed_calls ctx' = on_changed_calls example_ctx @ calls"
    and s: "set calls = {(0::int, player, type_of h) | player h.
               newly_broadcasted example_ctx ctx' 0 h \<and> player \<in> set (get_recipients h)}"
    by auto
  have e: "on_changed_calls ctx' = [(0, 1, TextHint_class), (0, 1, LocationSetHint_class)]"
    using example_calls b by simp
  have cl: "calls = [(0, 1, TextHint_class), (0, 1, LocationSetHint_class)]"
    using c e by (simp add: example_ctx_def)
  have s': "{(0::int, 1, TextHint_class), (0, 1, LocationSetHint_class)}
         = {(0::int, player, type_of h) | player h.
              newly_broadcasted example_ctx ctx' 0 h \<and> player \<in> set (get_recipients h)}"
    using s cl by (simp only: list.set)
  show ?thesis
  proof (intro exI conjI)
    show "broadcast_updates example_ctx 0 = Inr ctx'" by (rule b)
    show "on_changed_calls ctx' = [(0, 1, TextHint_class), (0, 1, LocationSetHint_class)]"
      by (rule e)
    show "{(0::int, 1, TextHint_class), (0, 1, LocationSetHint_class)}
         = {(0::int, player, type_of h) | player h.
              newly_broadcasted example_ctx ctx' 0 h \<and> player \<in> set (get_recipients h)}"
      by (rule s')
  qed
qed

lemma unreleased_behaviour:
  assumes "state_of ctx team h = Some unreleased"
  shows "re_check ctx team h = Inl (Exception ''Called re_check on unreleased hint'')"
    and "check_and_set_broadcasted ctx team h = Inr (ctx, False)"
proof -
  from assms obtain d where d: "get_team_data ctx team h = Inr d" "release_state d = unreleased"
    by (auto simp: state_of_def split: sum.splits)
  show "re_check ctx team h = Inl (Exception ''Called re_check on unreleased hint'')"
    using d by (simp add: re_check_def)
  show "check_and_set_broadcasted ctx team h = Inr (ctx, False)"
    using d by (simp add: check_and_set_broadcasted_def)
qed

lemma example_unreleased: "state_of example_ctx 0 (TextHint 2 ''c'') = Some unreleased"
  by (simp add: state_of_def get_team_data_def example_ctx_def)

text \<open>
  C2. The claim: on a hint that is still \<open>unreleased\<close>, both \<^verbatim>\<open>re_check\<close> and
  \<^verbatim>\<open>check_and_set_broadcasted\<close> raise. Amended: \<^verbatim>\<open>re_check\<close> raises
  \<^verbatim>\<open>Exception("Called re_check on unreleased hint")\<close>, and
  \<^verbatim>\<open>check_and_set_broadcasted\<close> returns \<^verbatim>\<open>False\<close> and leaves the context as it was.
\<close>

theorem unreleased_re_check_raises_broadcast_check_returns_False:
  assumes "state_of ctx team h = Some unreleased"
  shows "re_check ctx team h = Inl (Exception ''Called re_check on unreleased hint'')
       \<and> check_and_set_broadcasted ctx team h = Inr (ctx, False)"
  using unreleased_behaviour [OF assms] by simp

theorem unreleased_re_check_raises_broadcast_check_returns_False_witness:
  "state_of example_ctx 0 (TextHint 2 ''c'') = Some unreleased
   \<and> re_check example_ctx 0 (TextHint 2 ''c'') = Inl (Exception ''Called re_check on unreleased hint'')
   \<and> check_and_set_broadcasted example_ctx 0 (TextHint 2 ''c'') = Inr (example_ctx, False)"
  using example_unreleased unreleased_re_check_raises_broadcast_check_returns_False [OF example_unreleased] by simp

text \<open>
  The claim as stated is false: on an unreleased hint \<^verbatim>\<open>check_and_set_broadcasted\<close>
  returns.
\<close>

theorem check_and_set_broadcasted_unreleased_returns:
  "\<not> (\<forall>(ctx :: int ctx) team h. state_of ctx team h = Some unreleased \<longrightarrow>
        (\<exists>e. re_check ctx team h = Inl e) \<and> (\<exists>e. check_and_set_broadcasted ctx team h = Inl e))"
proof
  assume a: "\<forall>(ctx :: int ctx) team h. state_of ctx team h = Some unreleased \<longrightarrow>
        (\<exists>e. re_check ctx team h = Inl e) \<and> (\<exists>e. check_and_set_broadcasted ctx team h = Inl e)"
  from a example_unreleased obtain e where
    "check_and_set_broadcasted example_ctx 0 (TextHint 2 ''c'') = Inl e" by blast
  thus False using unreleased_behaviour(2) [OF example_unreleased] by simp
qed

section \<open>Theorems: wire codec\<close>

text \<open>
  C4. The claim: only the shapes of the allowlist and \<^verbatim>\<open>Version\<close> are ever built, every
  mapping whose discriminator is absent or is anything else stays a plain mapping, and
  decoding it never raises. The hook looks the discriminator up in two dictionaries, and a
  discriminator that is a JSON array or object is an unhashable key: the hook of the message
  \<^verbatim>\<open>{"class": []}\<close> raises \<^verbatim>\<open>TypeError\<close>.
\<close>

theorem object_hook_unhashable_discriminator:
  "object_hook (PDict [(''class'', PList [])]) = Inl TypeError_unhashable"
  by (simp add: object_hook_def dict_get_def get_default_def)

text \<open>
  What does hold of the claim: a dictionary whose discriminator is absent or is a hashable
  value other than the four recognised names is returned as it is, a value that is no
  dictionary is returned as it is, and a typed result comes from a recognised name only.
\<close>

lemma object_hook_unrecognised:
  assumes "hashable (get_default d ''class'' PNone)"
    and "get_default d ''class'' PNone \<notin> PStr ` set recognised"
  shows "object_hook (PDict d) = Inr (PDict d)"
proof (cases "get_default d ''class'' PNone")
  case (PStr s)
  with assms(2) have "s \<notin> set recognised" by auto
  hence "map_of custom_hooks s = None" "map_of allowlist s = None"
    by (auto simp: recognised_def keys_def map_of_eq_None_iff)
  thus ?thesis using PStr by (simp add: object_hook_def dict_get_def)
qed (use assms(1) in \<open>simp_all add: object_hook_def dict_get_def\<close>)

lemma object_hook_non_dict: "\<forall>d. obj \<noteq> PDict d \<Longrightarrow> object_hook obj = Inr obj"
  by (cases obj) (simp_all add: object_hook_def)

lemma object_hook_typed_only_recognised:
  assumes "object_hook (PDict d) = Inr v" "typed v"
  shows "\<exists>s. get_default d ''class'' PNone = PStr s \<and> s \<in> set recognised"
proof (rule ccontr)
  assume n: "\<not> (\<exists>s. get_default d ''class'' PNone = PStr s \<and> s \<in> set recognised)"
  have h: "hashable (get_default d ''class'' PNone)"
    using assms(1) by (auto simp: object_hook_def dict_get_def split: if_splits)
  have "get_default d ''class'' PNone \<notin> PStr ` set recognised" using n by auto
  from object_hook_unrecognised [OF h this] assms show False by auto
qed










section \<open>Theorems: rich-text renderer\<close>


lemma reset: "color_code [''reset''] = Inr (char_of (27 :: nat) # ''[0m'')"
  by code_simp


















lemma example_item_id_again:
  "snd (handle_node False example_render_ctx
     \<lparr>p_text = Some ''Item5/2'', p_type = Some ''item_id'', p_color = Some ''plum'',
       p_player = Some 2, p_flags = Some 1\<rparr>)
   = Inl (ValueError ''invalid literal for int() with base 10'')"
  by code_simp



end
